theory Spec2Isabelle
  imports Complex_Main
begin

section \<open>Strings of the smart-search function\<close>

text \<open>
  The edge function \<^verbatim>\<open>smart-search\<close> works on JavaScript strings. A string is modelled
  as a \<^typ>\<open>string\<close>, each \<^typ>\<open>char\<close> read as one UTF-16 code unit below 256 (the Latin-1
  range). On that range \<^verbatim>\<open>toLowerCase\<close> acts on each code unit alone and stays in the range,
  and the white space of \<^verbatim>\<open>trim\<close> and of the regular expression class \<^verbatim>\<open>\s\<close> is the same
  set of seven code units.
\<close>

definition is_ws :: "char \<Rightarrow> bool" where
  \<comment> \<open>TAB, LF, VT, FF, CR, SPACE, NBSP: what \<^verbatim>\<open>\s\<close> and \<^verbatim>\<open>trim\<close> take for white space.\<close>
  "is_ws c = ((of_char c :: nat) \<in> {9, 10, 11, 12, 13, 32, 160})"

definition is_sep :: "char \<Rightarrow> bool" where
  \<comment> \<open>The character class \<^verbatim>\<open>[,;]\<close>.\<close>
  "is_sep c = (c = CHR '','' \<or> c = CHR '';'')"

definition toLowerChar :: "char \<Rightarrow> char" where
  \<comment> \<open>A-Z and the accented capitals 0xC0-0xDE (without the multiplication sign 0xD7)
      move up by 32; every other code unit is its own lower case.\<close>
  "toLowerChar c =
     (let n = (of_char c :: nat)
      in if (65 \<le> n \<and> n \<le> 90) \<or> (192 \<le> n \<and> n \<le> 222 \<and> n \<noteq> 215)
         then char_of (n + 32) else c)"

definition toLowerCase :: "string \<Rightarrow> string" where
  "toLowerCase s = map toLowerChar s"

definition trim :: "string \<Rightarrow> string" where
  "trim s = rev (dropWhile is_ws (rev (dropWhile is_ws s)))"

text \<open>
  \<^verbatim>\<open>s.split(re)\<close> for a regular expression that matches one character of a class
  followed by the longest run of white space: \<^verbatim>\<open>/[,;]\s*/\<close> with the class \<^verbatim>\<open>[,;]\<close>, and
  \<^verbatim>\<open>/\s+/\<close> with the class \<^verbatim>\<open>\s\<close>. The scan keeps the piece read so far in \<open>cur\<close>; a match
  closes the piece and the scan goes on behind the match. The end of the string closes
  the last piece, so the result always has at least one piece (\<^verbatim>\<open>"".split(re)\<close> is
  \<^verbatim>\<open>[""]\<close>, as neither expression matches the empty string).
\<close>

function js_split :: "(char \<Rightarrow> bool) \<Rightarrow> string \<Rightarrow> string \<Rightarrow> string list" where
  "js_split p cur [] = [cur]"
| "js_split p cur (c # cs) =
     (if p c then cur # js_split p [] (dropWhile is_ws cs)
      else js_split p (cur @ [c]) cs)"
  by pat_completeness auto
termination
  by (relation "measure (\<lambda>(p, cur, s). length s)")
     (auto simp: less_Suc_eq_le length_dropWhile_le)

definition split_sep :: "string \<Rightarrow> string list" where
  \<comment> \<open>\<^verbatim>\<open>s.split(/[,;]\s*/)\<close>\<close>
  "split_sep s = js_split is_sep [] s"

definition split_ws :: "string \<Rightarrow> string list" where
  \<comment> \<open>\<^verbatim>\<open>s.split(/\s+/)\<close>\<close>
  "split_ws s = js_split is_ws [] s"

fun includesStr :: "string \<Rightarrow> string \<Rightarrow> bool" where
  \<comment> \<open>\<^verbatim>\<open>s.includes(word)\<close>: \<open>word\<close> occurs in \<open>s\<close> at some position.\<close>
  "includesStr [] word = (word = [])"
| "includesStr (c # cs) word = (take (length word) (c # cs) = word \<or> includesStr cs word)"

section \<open>Fragment extraction\<close>

definition extractFragments :: "string \<Rightarrow> string list" where
  "extractFragments query =
     (let fragments = filter (\<lambda>fragment. length fragment > 0)
                        (map (\<lambda>fragment. trim fragment) (split_sep (toLowerCase query)))
      in if length fragments > 1 then fragments else [query])"

text \<open>
  The reading of the fragment extractor in the specification: the query is cut at every
  comma and semicolon, each part is trimmed, and the parts that are empty after trimming
  are dropped. The cut is at the separator character alone; the white space behind it
  goes with the trimming.
\<close>

fun split_on :: "(char \<Rightarrow> bool) \<Rightarrow> string \<Rightarrow> string \<Rightarrow> string list" where
  "split_on p cur [] = [cur]"
| "split_on p cur (c # cs) =
     (if p c then cur # split_on p [] cs else split_on p (cur @ [c]) cs)"

definition spec_nonempty_parts :: "string \<Rightarrow> string list" where
  "spec_nonempty_parts query =
     filter (\<lambda>part. part \<noteq> []) (map trim (split_on is_sep [] query))"

section \<open>Confidence score\<close>

text \<open>
  The projection of a knowledge item that the handler passes on: \<^verbatim>\<open>{title, content, tags,
  created_at}\<close>. The columns \<^verbatim>\<open>title\<close> and \<^verbatim>\<open>content\<close> are \<^verbatim>\<open>string\<close> in the table's row
  type, \<^verbatim>\<open>tags\<close> is \<^verbatim>\<open>string[] | null\<close>.
\<close>

record context_item =
  title :: string
  content :: string
  tags :: "string list option"
  created_at :: string

text \<open>
  The score is a JavaScript number. The model computes it in \<^typ>\<open>real\<close>: the two counters
  are natural numbers, the quotient is the exact one, and \<open>0.3\<close>, \<open>0.1\<close>, \<open>0.95\<close> are the
  decimal constants of the source. The divisor is never zero (lemma \<open>score_loop_totalWords\<close>
  below), so the quotient of HOL is the quotient of the source.
\<close>

definition score_item :: "string list \<Rightarrow> nat \<times> nat \<Rightarrow> context_item \<Rightarrow> nat \<times> nat" where
  \<comment> \<open>The body of \<^verbatim>\<open>contextData.forEach\<close>, on the pair \<open>(totalMatches, totalWords)\<close>.\<close>
  "score_item queryWords acc item =
     (let text = toLowerCase (title item @ '' '' @ content item);
          matches = length (filter (\<lambda>word. includesStr text word) queryWords)
      in (fst acc + matches, snd acc + length queryWords))"

fun score_loop :: "string list \<Rightarrow> nat \<times> nat \<Rightarrow> context_item list \<Rightarrow> nat \<times> nat" where
  "score_loop queryWords acc [] = acc"
| "score_loop queryWords acc (item # items) =
     score_loop queryWords (score_item queryWords acc item) items"

definition calculateConfidenceScore :: "string \<Rightarrow> context_item list \<Rightarrow> real" where
  "calculateConfidenceScore query contextData =
     (if length contextData = 0 then 3 / 10
      else
        let queryWords = split_ws (toLowerCase query);
            totals = score_loop queryWords (0, 0) contextData;
            totalMatches = fst totals;
            totalWords = snd totals
        in min (95 / 100) (max (1 / 10) (real totalMatches / real totalWords)))"

text \<open>
  The scorer as the specification words it: the query is cut at white space into words;
  an item's matches are the query words that occur in the lowercased concatenation of
  its title and content; the divisor is the word count times the item count.
\<close>

definition spec_item_matches :: "string list \<Rightarrow> context_item \<Rightarrow> nat" where
  "spec_item_matches ws item =
     length (filter (\<lambda>word. includesStr (toLowerCase (title item @ content item)) word) ws)"

definition spec_confidence :: "string \<Rightarrow> context_item list \<Rightarrow> real" where
  "spec_confidence query items =
     (if items = [] then 3 / 10
      else
        let ws = split_ws query;
            total_matches = sum_list (map (spec_item_matches ws) items);
            total_words = length ws * length items
        in min (95 / 100) (max (1 / 10) (real total_matches / real total_words)))"

text \<open>What the source counts: the words of the lowercased query, looked up in the
  lowercased \<^verbatim>\<open>title + ' ' + content\<close>.\<close>

definition item_matches :: "string list \<Rightarrow> context_item \<Rightarrow> nat" where
  "item_matches ws item =
     length (filter (\<lambda>word. includesStr (toLowerCase (title item @ '' '' @ content item)) word) ws)"

section \<open>The request handler\<close>

subsection \<open>Rows, collaborators and the world\<close>

text \<open>
  The handler talks to a store (three tables), to the language model and to the clock.
  What is durable or observable after a request is the \<open>world\<close>: the rows of
  \<^verbatim>\<open>search_queries\<close> and \<^verbatim>\<open>search_results\<close>, the console, and the prompts posted to the
  model. What the collaborators answer during one request is the \<open>env\<close>; every theorem
  holds for all of them.
\<close>

record knowledge_row =
  kb_id :: string
  kb_user_id :: "string option"
  kb_title :: string
  kb_content :: string
  kb_tags :: "string list option"
  kb_created_at :: string

record search_query_row =
  sq_id :: string
  sq_user_id :: string
  sq_query_text :: string
  sq_query_fragments :: "string list"
  sq_search_context :: string

record search_result_row =
  sr_query_id :: string
  sr_ai_response :: string
  sr_knowledge_matches :: "context_item list"
  sr_fragments :: "string list"
  sr_confidence_score :: real
  sr_processing_time_ms :: int

datatype log_entry =
    Smart_search_request string string
  | Error_storing_query string
  | Gemini_API_error string
  | Error_storing_result string
  | Error_in_smart_search string

record world =
  search_queries :: "search_query_row list"
  search_results :: "search_result_row list"
  console :: "log_entry list"
  gemini_requests :: "string list"

datatype gemini_body =
    Invalid_json string
  | Candidates "string option"

datatype fetch_result =
    Fetch_failed string
  | Http_response nat string gemini_body

record env =
  clock_start :: int
  clock_end :: int
  iso_timestamp :: string
  query_insert_result :: "string + string"
  knowledge_search_data :: "knowledge_row list option"
  gemini_api_key :: "string option"
  gemini_reply :: fetch_result
  result_insert_error :: "string option"

text \<open>
  \<^item> \<open>query_insert_result\<close>: \<open>Inl\<close> is the message of \<^verbatim>\<open>queryError\<close>, \<open>Inr\<close> the id the store
    gave the new row (\<^verbatim>\<open>queryRecord.id\<close>).
  \<^item> \<open>knowledge_search_data\<close>: the \<^verbatim>\<open>data\<close> of the text search, \<open>None\<close> for \<^verbatim>\<open>null\<close>, which is
    what the store's client resolves to when the search fails: it reports the failure in
    \<^verbatim>\<open>error\<close>, which the handler does not read, and does not reject.
  \<^item> \<open>gemini_reply\<close>: \<^verbatim>\<open>fetch\<close> rejects, or answers with a status, a text and a body that
    \<^verbatim>\<open>json()\<close> either rejects or parses; \<open>Candidates\<close> holds
    \<^verbatim>\<open>candidates?.[0]?.content?.parts?.[0]?.text\<close>, \<open>None\<close> for \<^verbatim>\<open>undefined\<close>.
  \<^item> \<open>result_insert_error\<close>: \<^verbatim>\<open>resultError\<close>, \<open>None\<close> when the row was written.
\<close>

datatype request =
    Options
  | Json_body string string
  | Bad_body string

record search_response =
  resp_response :: string
  resp_knowledgeMatches :: "context_item list"
  resp_processingTime :: int
  resp_queryId :: string

datatype response =
    Preflight
  | Ok_json search_response
  | Error_json nat string

subsection \<open>The prompt\<close>

definition NL :: string where
  "NL = [CHR 0x0A]"

fun join :: "string \<Rightarrow> string list \<Rightarrow> string" where
  "join sep [] = []"
| "join sep [x] = x"
| "join sep (x # y # ys) = x @ sep @ join sep (y # ys)"

definition tags_text :: "context_item \<Rightarrow> string" where
  \<comment> \<open>\<^verbatim>\<open>item.tags?.join(', ') || 'none'\<close>\<close>
  "tags_text item =
     (case tags item of
        None \<Rightarrow> ''none''
      | Some ts \<Rightarrow> (if join '', '' ts = [] then ''none'' else join '', '' ts))"

definition render_item :: "context_item \<Rightarrow> string" where
  "render_item item =
     ''Title: '' @ title item @ NL @ ''Content: '' @ content item @ NL @
     ''Tags: '' @ tags_text item @ NL @ ''---''"

definition render_context :: "context_item list \<Rightarrow> string" where
  "render_context contextData = join NL (map render_item contextData)"

definition build_prompt :: "string \<Rightarrow> context_item list \<Rightarrow> string" where
  "build_prompt query contextData =
     ''You are a smart search assistant that helps users find information from incomplete or fragmented queries. '' @ NL @
     NL @
     ''User'' @ [CHR 0x27] @ ''s query: '' @ [CHR 0x22] @ query @ [CHR 0x22] @ NL @
     NL @
     ''Available knowledge base content:'' @ NL @
     render_context contextData @ NL @
     NL @
     ''Task: '' @ NL @
     ''1. Analyze the user'' @ [CHR 0x27] @ ''s query for fragments and incomplete information'' @ NL @
     ''2. If knowledge base content is available, find the most relevant matches'' @ NL @
     ''3. If no direct matches, suggest what the user might be looking for based on the fragments'' @ NL @
     ''4. Provide a helpful, natural response that reconstructs the missing information'' @ NL @
     ''5. If the query is too vague, ask clarifying questions'' @ NL @
     NL @
     ''Respond in a helpful, conversational tone. Focus on being accurate and useful.''"

subsection \<open>The handler\<close>

definition digit_char :: "nat \<Rightarrow> char" where
  "digit_char d = char_of (48 + d)"

fun show_nat :: "nat \<Rightarrow> string" where
  "show_nat n = (if n < 10 then [digit_char n] else show_nat (n div 10) @ [digit_char (n mod 10)])"

declare show_nat.simps [simp del]

definition project :: "knowledge_row \<Rightarrow> context_item" where
  "project item =
     \<lparr>title = kb_title item, content = kb_content item,
      tags = kb_tags item, created_at = kb_created_at item\<rparr>"

definition prepare_context :: "knowledge_row list option \<Rightarrow> context_item list" where
  \<comment> \<open>\<^verbatim>\<open>knowledgeResults?.map(...) || []\<close>\<close>
  "prepare_context knowledgeResults =
     (case knowledgeResults of
        None \<Rightarrow> []
      | Some rows \<Rightarrow> map project rows)"

definition answer_text :: "string option \<Rightarrow> string" where
  \<comment> \<open>\<^verbatim>\<open>geminiData.candidates?.[0]?.content?.parts?.[0]?.text || 'No response generated'\<close>\<close>
  "answer_text text =
     (case text of
        None \<Rightarrow> ''No response generated''
      | Some t \<Rightarrow> if t = [] then ''No response generated'' else t)"

definition console_write :: "log_entry \<Rightarrow> world \<Rightarrow> world" where
  "console_write entry w = w\<lparr>console := console w @ [entry]\<rparr>"

definition response_ok :: "nat \<Rightarrow> bool" where
  \<comment> \<open>\<^verbatim>\<open>geminiResponse.ok\<close>\<close>
  "response_ok status = (200 \<le> status \<and> status \<le> 299)"

text \<open>
  The column \<^verbatim>\<open>confidence_score\<close> of \<^verbatim>\<open>search_results\<close> is declared \<^verbatim>\<open>NUMERIC(3,2)\<close>: the store
  rounds the number it is given to two decimals, a tie away from zero, and keeps that. (A
  value that rounds to 10 or more in size is refused by the store; the score is at most
  0.95.) The score reaches the store in its shortest decimal writing, which is the exact
  decimal whenever the score has one of three digits, so a tie of the exact score is a tie
  for the store.
\<close>

definition numeric_3_2 :: "real \<Rightarrow> real" where
  "numeric_3_2 x =
     (if x < 0 then - (real_of_int \<lfloor>- x * 100 + 1 / 2\<rfloor> / 100)
      else real_of_int \<lfloor>x * 100 + 1 / 2\<rfloor> / 100)"

definition store_result ::
  "env \<Rightarrow> search_query_row \<Rightarrow> string \<Rightarrow> context_item list \<Rightarrow> string \<Rightarrow> int \<Rightarrow> world \<Rightarrow> world" where
  "store_result e queryRecord query contextData aiResponse processingTime w =
     (case result_insert_error e of
        None \<Rightarrow>
          w\<lparr>search_results := search_results w @
             [\<lparr>sr_query_id = sq_id queryRecord,
               sr_ai_response = aiResponse,
               sr_knowledge_matches = contextData,
               sr_fragments = extractFragments query,
               sr_confidence_score = numeric_3_2 (calculateConfidenceScore query contextData),
               sr_processing_time_ms = processingTime\<rparr>]\<rparr>
      | Some resultError \<Rightarrow> console_write (Error_storing_result resultError) w)"

definition ask_gemini ::
  "env \<Rightarrow> search_query_row \<Rightarrow> string \<Rightarrow> context_item list \<Rightarrow> world
     \<Rightarrow> (string + search_response) \<times> world" where
  "ask_gemini e queryRecord query contextData w =
     (if gemini_api_key e = None \<or> gemini_api_key e = Some []
      then (Inl ''Gemini API key not configured'', w)
      else
        let prompt = build_prompt query contextData;
            w1 = w\<lparr>gemini_requests := gemini_requests w @ [prompt]\<rparr>
        in case gemini_reply e of
             Fetch_failed msg \<Rightarrow> (Inl msg, w1)
           | Http_response status errorText body \<Rightarrow>
               if \<not> response_ok status
               then (Inl (''Gemini API error: '' @ show_nat status), console_write (Gemini_API_error errorText) w1)
               else
                 (case body of
                    Invalid_json msg \<Rightarrow> (Inl msg, w1)
                  | Candidates text \<Rightarrow>
                      let aiResponse = answer_text text;
                          processingTime = clock_end e - clock_start e;
                          w2 = store_result e queryRecord query contextData aiResponse processingTime w1
                      in (Inr \<lparr>resp_response = aiResponse,
                                resp_knowledgeMatches = contextData,
                                resp_processingTime = processingTime,
                                resp_queryId = sq_id queryRecord\<rparr>, w2)))"

definition search_body :: "env \<Rightarrow> string \<Rightarrow> string \<Rightarrow> world \<Rightarrow> (string + search_response) \<times> world" where
  \<comment> \<open>The \<^verbatim>\<open>try\<close> block once the body is read; \<open>Inl\<close> is the message of what it throws.\<close>
  "search_body e query userId w =
     (let w1 = console_write (Smart_search_request query userId) w
      in case query_insert_result e of
           Inl queryError \<Rightarrow> (Inl queryError, console_write (Error_storing_query queryError) w1)
         | Inr newId \<Rightarrow>
             let queryRecord =
                   \<lparr>sq_id = newId, sq_user_id = userId, sq_query_text = query,
                    sq_query_fragments = extractFragments query,
                    sq_search_context = iso_timestamp e\<rparr>;
                 w2 = w1\<lparr>search_queries := search_queries w1 @ [queryRecord]\<rparr>;
                 contextData = prepare_context (knowledge_search_data e)
             in ask_gemini e queryRecord query contextData w2)"

definition catch :: "(string + search_response) \<times> world \<Rightarrow> response \<times> world" where
  \<comment> \<open>The \<^verbatim>\<open>catch\<close> block: status 500 with \<^verbatim>\<open>error.message || '...'\<close>.\<close>
  "catch r =
     (case r of
        (Inl msg, w) \<Rightarrow>
          (Error_json 500 (if msg = [] then ''An error occurred during search processing'' else msg),
           console_write (Error_in_smart_search msg) w)
      | (Inr body, w) \<Rightarrow> (Ok_json body, w))"

definition serve :: "env \<Rightarrow> request \<Rightarrow> world \<Rightarrow> response \<times> world" where
  "serve e req w =
     (case req of
        Options \<Rightarrow> (Preflight, w)
      | Bad_body msg \<Rightarrow> catch (Inl msg, w)
      | Json_body query userId \<Rightarrow> catch (search_body e query userId w))"

subsection \<open>The client\<close>

text \<open>\<^verbatim>\<open>handleSearch\<close> of the search page, as far as it decides whether a request is sent:
  the notice it shows, and the world after it.\<close>

datatype toast =
    Search_Query_Required
  | Authentication_Required
  | Search_Complete int
  | Search_Error

definition handleSearch :: "env \<Rightarrow> string \<Rightarrow> string option \<Rightarrow> world \<Rightarrow> toast \<times> world" where
  "handleSearch e query user w =
     (if trim query = [] then (Search_Query_Required, w)
      else case user of
             None \<Rightarrow> (Authentication_Required, w)
           | Some userId \<Rightarrow>
               (case serve e (Json_body query userId) w of
                  (Ok_json data, w1) \<Rightarrow> (Search_Complete (resp_processingTime data), w1)
                | (_, w1) \<Rightarrow> (Search_Error, w1)))"

definition is_error :: "response \<Rightarrow> bool" where
  "is_error r = (case r of Error_json status msg \<Rightarrow> True | _ \<Rightarrow> False)"

definition has_separator :: "string \<Rightarrow> bool" where
  "has_separator query = list_ex is_sep query"

text \<open>A knowledge item, a request on which every collaborator answers, and the empty
  world.\<close>

definition deck :: context_item where
  "deck =
     \<lparr>title = ''Q3 Marketing Deck'', content = ''presentation about marketing strategy'',
      tags = Some [''marketing'', ''q3''], created_at = ''2024-10-01T09:00:00.000Z''\<rparr>"

definition deck_row :: knowledge_row where
  "deck_row =
     \<lparr>kb_id = ''k-1'', kb_user_id = Some ''user-1'', kb_title = title deck,
      kb_content = content deck, kb_tags = tags deck, kb_created_at = created_at deck\<rparr>"

definition env0 :: env where
  "env0 =
     \<lparr>clock_start = 1000, clock_end = 1250, iso_timestamp = ''2025-01-01T00:00:00.000Z'',
      query_insert_result = Inr ''q-1'',
      knowledge_search_data = Some [deck_row],
      gemini_api_key = Some ''key'',
      gemini_reply = Http_response 200 [] (Candidates (Some ''What are you looking for?'')),
      result_insert_error = None\<rparr>"

definition world0 :: world where
  "world0 = \<lparr>search_queries = [], search_results = [], console = [], gemini_requests = []\<rparr>"

section \<open>Properties of the string operations\<close>

lemma is_sep_of_char: "is_sep c = ((of_char c :: nat) = 44 \<or> (of_char c :: nat) = 59)"
proof -
  have "(c = CHR '','') = ((of_char c :: nat) = of_char CHR '','')"
    by (simp only: of_char_eq_iff)
  moreover have "(c = CHR '';'') = ((of_char c :: nat) = of_char CHR '';'')"
    by (simp only: of_char_eq_iff)
  ultimately show ?thesis by (simp add: is_sep_def)
qed

lemma of_char_toLowerChar:
  "(of_char (toLowerChar c) :: nat) =
     (let n = (of_char c :: nat)
      in if (65 \<le> n \<and> n \<le> 90) \<or> (192 \<le> n \<and> n \<le> 222 \<and> n \<noteq> 215) then n + 32 else n)"
  by (auto simp: toLowerChar_def Let_def)

lemma is_sep_toLowerChar: "is_sep (toLowerChar c) = is_sep c"
  by (auto simp: is_sep_of_char of_char_toLowerChar Let_def)

lemma is_ws_toLowerChar: "is_ws (toLowerChar c) = is_ws c"
  by (auto simp: is_ws_def of_char_toLowerChar Let_def)

lemma is_sep_not_ws: "is_sep c \<Longrightarrow> \<not> is_ws c"
  by (auto simp: is_sep_of_char is_ws_def)

lemma trim_map:
  assumes "\<And>c. is_ws (f c) = is_ws c"
  shows "trim (map f s) = map f (trim s)"
  by (simp add: trim_def dropWhile_map rev_map o_def assms)

lemma trim_ws_Cons: "is_ws c \<Longrightarrow> trim (c # s) = trim s"
  by (simp add: trim_def)

text \<open>Splitting commutes with a character map that keeps the two character classes.\<close>

lemma js_split_map:
  "(\<forall>c. p (f c) = p c) \<Longrightarrow> (\<forall>c. is_ws (f c) = is_ws c) \<Longrightarrow>
   js_split p (map f cur) (map f s) = map (map f) (js_split p cur s)"
proof (induction p cur s rule: js_split.induct)
  case (1 p cur)
  show ?case by simp
next
  case (2 p cur c cs)
  have dw: "dropWhile is_ws (map f cs) = map f (dropWhile is_ws cs)"
    using 2(4) by (simp add: dropWhile_map o_def)
  have pf: "p (f c) = p c"
    using 2(3) by simp
  show ?case
  proof (cases "p c")
    case True
    have "js_split p (map f []) (map f (dropWhile is_ws cs))
          = map (map f) (js_split p [] (dropWhile is_ws cs))"
      using 2(1) [OF True 2(3) 2(4)] .
    with True show ?thesis
      by (simp add: pf dw)
  next
    case False
    have "js_split p (map f (cur @ [c])) (map f cs) = map (map f) (js_split p (cur @ [c]) cs)"
      using 2(2) [OF False 2(3) 2(4)] .
    with False show ?thesis
      by (simp add: pf)
  qed
qed

lemma js_split_no_sep: "\<forall>c \<in> set s. \<not> p c \<Longrightarrow> js_split p cur s = [cur @ s]"
  by (induction s arbitrary: cur) auto

lemma js_split_nonempty: "js_split p cur s \<noteq> []"
  by (induction p cur s rule: js_split.induct) auto

lemma split_on_cur: "split_on p cur s = (cur @ hd (split_on p [] s)) # tl (split_on p [] s)"
proof (induction s arbitrary: cur)
  case Nil
  show ?case by simp
next
  case (Cons c cs)
  show ?case
  proof (cases "p c")
    case True
    then show ?thesis by simp
  next
    case False
    then show ?thesis
      using Cons.IH [of "cur @ [c]"] Cons.IH [of "[c]"] by simp
  qed
qed

text \<open>White space behind a separator is gone after trimming, whether the split or the
  trim removes it.\<close>

lemma split_on_dropWhile:
  "map trim (split_on is_sep [] (dropWhile is_ws s)) = map trim (split_on is_sep [] s)"
proof (induction s)
  case Nil
  show ?case by simp
next
  case (Cons c cs)
  show ?case
  proof (cases "is_ws c")
    case True
    then have ns: "\<not> is_sep c" using is_sep_not_ws by blast
    have "map trim (split_on is_sep [] (c # cs)) =
          trim (c # hd (split_on is_sep [] cs)) # map trim (tl (split_on is_sep [] cs))"
      using ns split_on_cur [of is_sep "[c]" cs] by simp
    also have "\<dots> = trim (hd (split_on is_sep [] cs)) # map trim (tl (split_on is_sep [] cs))"
      using True by (simp add: trim_ws_Cons)
    also have "\<dots> = map trim (split_on is_sep [] cs)"
      using split_on_cur [of is_sep "[]" cs] by (metis append_Nil list.simps(9))
    finally show ?thesis using True Cons.IH by simp
  next
    case False
    then show ?thesis by simp
  qed
qed

lemma js_split_split_on:
  "map trim (js_split is_sep cur s) = map trim (split_on is_sep cur s)"
proof (induction is_sep cur s rule: js_split.induct)
  case (1 cur)
  show ?case by simp
next
  case (2 cur c cs)
  show ?case
  proof (cases "is_sep c")
    case True
    with 2(1) [OF True] show ?thesis by (simp add: split_on_dropWhile)
  next
    case False
    with 2(2) [OF False] show ?thesis by simp
  qed
qed

text \<open>The list the source calls \<^verbatim>\<open>fragments\<close> is the lower case of the non-empty parts.\<close>

lemma fragments_spec_parts:
  "filter (\<lambda>fragment. length fragment > 0)
     (map (\<lambda>fragment. trim fragment) (split_sep (toLowerCase query)))
   = map toLowerCase (spec_nonempty_parts query)"
proof -
  have "split_sep (toLowerCase query) = map toLowerCase (js_split is_sep [] query)"
    using js_split_map [of is_sep toLowerChar "[]" query]
    by (simp add: split_sep_def toLowerCase_def [abs_def] is_sep_toLowerChar is_ws_toLowerChar)
  then have "map trim (split_sep (toLowerCase query))
             = map toLowerCase (map trim (js_split is_sep [] query))"
    using trim_map [of toLowerChar]
    by (simp add: toLowerCase_def [abs_def] is_ws_toLowerChar o_def)
  also have "\<dots> = map toLowerCase (map trim (split_on is_sep [] query))"
    by (simp only: js_split_split_on)
  finally have "map trim (split_sep (toLowerCase query))
             = map toLowerCase (map trim (split_on is_sep [] query))" .
  then show ?thesis
    by (simp add: spec_nonempty_parts_def filter_map o_def toLowerCase_def)
qed

lemma extractFragments_Nil: "extractFragments [] = [[]]"
  by (simp add: extractFragments_def split_sep_def toLowerCase_def trim_def)

section \<open>Fragment extraction: the claims\<close>

text \<open>
  C2, as the specification states it: for a non-empty query without comma and semicolon,
  fragment extraction returns one element, the trimmed, lowercased query. The source
  returns \<^verbatim>\<open>[query]\<close> there, the query as it came: with a capital letter or white space
  at an end the two differ.
\<close>

theorem extractFragments_single_phrase_counterexample:
  "''Blue Folder '' \<noteq> [] \<and> \<not> has_separator ''Blue Folder '' \<and>
   extractFragments ''Blue Folder '' = [''Blue Folder ''] \<and>
   trim (toLowerCase ''Blue Folder '') = ''blue folder'' \<and>
   extractFragments ''Blue Folder '' \<noteq> [trim (toLowerCase ''Blue Folder '')]"
  by (simp add: has_separator_def is_sep_def extractFragments_def split_sep_def
        toLowerCase_def toLowerChar_def is_ws_def trim_def char_of_eq_iff)

text \<open>
  C2, amended: for every query without comma and semicolon, fragment extraction returns
  the one-element sequence holding the query unchanged, neither trimmed nor lowercased.
\<close>

theorem extractFragments_single_phrase:
  "\<not> has_separator query \<Longrightarrow> extractFragments query = [query]"
proof -
  assume "\<not> has_separator query"
  then have "\<forall>c \<in> set (toLowerCase query). \<not> is_sep c"
    by (simp add: has_separator_def list_ex_iff toLowerCase_def is_sep_toLowerChar)
  then have "split_sep (toLowerCase query) = [toLowerCase query]"
    by (simp add: split_sep_def js_split_no_sep)
  then show ?thesis
    by (simp add: extractFragments_def)
qed

theorem extractFragments_single_phrase_witness:
  "\<not> has_separator ''Blue Folder '' \<and> extractFragments ''Blue Folder '' = [''Blue Folder '']"
proof -
  have h: "\<not> has_separator ''Blue Folder ''"
    by (simp add: has_separator_def is_sep_def)
  show ?thesis
    using h extractFragments_single_phrase [OF h] by simp
qed

text \<open>
  C5: when cutting the query at commas and semicolons gives at least two parts that are
  not empty (a part of white space alone counts as empty, as in the source's filter, which
  runs after the trim), fragment extraction returns exactly those parts, trimmed and
  lowercased, the empty ones dropped, in their order.
\<close>

theorem extractFragments_parts:
  "2 \<le> length (spec_nonempty_parts query) \<Longrightarrow>
   extractFragments query = map toLowerCase (spec_nonempty_parts query)"
  unfolding extractFragments_def fragments_spec_parts by simp

theorem extractFragments_parts_witness:
  "2 \<le> length (spec_nonempty_parts ''Blue Folder, last week;;  Something about AI '') \<and>
   extractFragments ''Blue Folder, last week;;  Something about AI '' =
     [''blue folder'', ''last week'', ''something about ai'']"
proof -
  have h: "2 \<le> length (spec_nonempty_parts ''Blue Folder, last week;;  Something about AI '')"
    by code_simp
  have v: "map toLowerCase (spec_nonempty_parts ''Blue Folder, last week;;  Something about AI '') =
     [''blue folder'', ''last week'', ''something about ai'']"
    by code_simp
  show ?thesis
    using h extractFragments_parts [OF h] v by simp
qed

text \<open>
  C6: when cutting the query at commas and semicolons gives at most one part that is not
  empty, fragment extraction returns the one-element sequence holding the whole original
  query; and fragment extraction never returns the empty sequence (for the empty query it
  returns the sequence holding the empty string).
\<close>

theorem extractFragments_whole_query:
  "(length (spec_nonempty_parts query) \<le> 1 \<longrightarrow> extractFragments query = [query]) \<and>
   extractFragments query \<noteq> []"
  unfolding extractFragments_def fragments_spec_parts by (auto simp: Let_def)

theorem extractFragments_whole_query_witness:
  "length (spec_nonempty_parts ''Blue Folder; '') \<le> 1 \<and>
   extractFragments ''Blue Folder; '' = [''Blue Folder; ''] \<and>
   extractFragments ''Blue Folder; '' \<noteq> []"
proof -
  have h: "length (spec_nonempty_parts ''Blue Folder; '') \<le> 1"
    by code_simp
  show ?thesis
    using h extractFragments_whole_query [of "''Blue Folder; ''"] by simp
qed

section \<open>Confidence score: the claims\<close>

lemma score_loop_eq:
  "score_loop ws acc items =
     (fst acc + sum_list (map (item_matches ws) items), snd acc + length ws * length items)"
  by (induction items arbitrary: acc) (simp_all add: score_item_def item_matches_def Let_def)

text \<open>The divisor of the source is positive whenever the loop has run.\<close>

lemma score_loop_totalWords:
  "items \<noteq> [] \<Longrightarrow> 0 < snd (score_loop (split_ws q) (0, 0) items)"
  using js_split_nonempty [of is_ws "[]" q]
  by (simp add: score_loop_eq split_ws_def)

lemma calculateConfidenceScore_Nil: "calculateConfidenceScore query [] = 3 / 10"
  by (simp add: calculateConfidenceScore_def)

lemma clamp_bounds:
  "1 / 10 \<le> min (95 / 100) (max (1 / 10) (x :: real)) \<and>
   min (95 / 100) (max (1 / 10) x) \<le> 95 / 100"
  by (simp add: min_def max_def)

text \<open>
  C3, as the specification states it (\<open>spec_confidence\<close>): the words are those of the query
  as given, and they are looked up in the lowercased title directly followed by the
  content. The source lowercases the query before it cuts it into words, and puts a space
  between title and content. A query with a capital letter is scored higher by the source
  than by the formula of the claim, and a word that spans the end of the title and the
  start of the content is scored lower.
\<close>

theorem confidence_formula_counterexample:
  "calculateConfidenceScore ''Marketing''
     [\<lparr>title = ''Marketing plan'', content = ''budget'', tags = None, created_at = []\<rparr>] = 95 / 100 \<and>
   spec_confidence ''Marketing''
     [\<lparr>title = ''Marketing plan'', content = ''budget'', tags = None, created_at = []\<rparr>] = 1 / 10 \<and>
   calculateConfidenceScore ''notebook''
     [\<lparr>title = ''Note'', content = ''book list'', tags = None, created_at = []\<rparr>] = 1 / 10 \<and>
   spec_confidence ''notebook''
     [\<lparr>title = ''Note'', content = ''book list'', tags = None, created_at = []\<rparr>] = 95 / 100"
  by (simp add: calculateConfidenceScore_def spec_confidence_def spec_item_matches_def
        score_item_def split_ws_def toLowerCase_def toLowerChar_def is_ws_def
        char_of_eq_iff Let_def)

text \<open>
  C3, amended: the confidence score is 0.3 if the item sequence is empty; otherwise it is
  min(0.95, max(0.1, total_matches / total_words)), where the lowercased query is cut at
  white space into words, total_matches is the sum over the items of the number of those
  words that occur in the lowercased text made of the item's title, a space and the item's
  content, and total_words is the word count times the number of items.
\<close>

theorem confidence_formula:
  "calculateConfidenceScore query items =
     (if items = [] then 3 / 10
      else
        let ws = split_ws (toLowerCase query);
            total_matches = sum_list (map (item_matches ws) items);
            total_words = length ws * length items
        in min (95 / 100) (max (1 / 10) (real total_matches / real total_words)))"
  by (simp add: calculateConfidenceScore_def score_loop_eq Let_def)

theorem confidence_formula_witness:
  "calculateConfidenceScore ''Marketing budget review'' [deck, deck] = 1 / 3"
proof -
  have "calculateConfidenceScore ''Marketing budget review'' [deck, deck] =
     (if [deck, deck] = [] then 3 / 10
      else
        let ws = split_ws (toLowerCase ''Marketing budget review'');
            total_matches = sum_list (map (item_matches ws) [deck, deck]);
            total_words = length ws * length [deck, deck]
        in min (95 / 100) (max (1 / 10) (real total_matches / real total_words)))"
    by (rule confidence_formula)
  also have "\<dots> = 1 / 3"
    by (simp add: item_matches_def deck_def split_ws_def toLowerCase_def toLowerChar_def
          is_ws_def char_of_eq_iff Let_def)
  finally show ?thesis .
qed

text \<open>
  C4: the confidence score lies in [0.1, 0.95] whenever at least one knowledge match was
  retrieved, and is exactly 0.3 when none was; for the query "marketing presentation" and
  the single item with title "Q3 Marketing Deck" and content "presentation about marketing
  strategy" (any tags and creation time) it is exactly 0.95.
\<close>

theorem confidence_bounds:
  "(items \<noteq> [] \<longrightarrow>
      1 / 10 \<le> calculateConfidenceScore query items \<and>
      calculateConfidenceScore query items \<le> 95 / 100) \<and>
   (items = [] \<longrightarrow> calculateConfidenceScore query items = 3 / 10) \<and>
   calculateConfidenceScore ''marketing presentation''
     [\<lparr>title = ''Q3 Marketing Deck'', content = ''presentation about marketing strategy'',
       tags = ts, created_at = t\<rparr>] = 95 / 100"
proof -
  have b: "items \<noteq> [] \<longrightarrow>
      1 / 10 \<le> calculateConfidenceScore query items \<and>
      calculateConfidenceScore query items \<le> 95 / 100"
    using clamp_bounds by (simp add: calculateConfidenceScore_def Let_def)
  have z: "items = [] \<longrightarrow> calculateConfidenceScore query items = 3 / 10"
    by (simp add: calculateConfidenceScore_Nil)
  have s: "calculateConfidenceScore ''marketing presentation''
     [\<lparr>title = ''Q3 Marketing Deck'', content = ''presentation about marketing strategy'',
       tags = ts, created_at = t\<rparr>] = 95 / 100"
    by (simp add: calculateConfidenceScore_def score_item_def split_ws_def toLowerCase_def
          toLowerChar_def is_ws_def char_of_eq_iff Let_def)
  from b z s show ?thesis by blast
qed

theorem confidence_bounds_witness:
  "[deck] \<noteq> [] \<and>
   1 / 10 \<le> calculateConfidenceScore ''budget'' [deck] \<and>
   calculateConfidenceScore ''budget'' [deck] \<le> 95 / 100 \<and>
   calculateConfidenceScore ''budget'' [] = 3 / 10"
  using confidence_bounds [of "[deck]" "''budget''"] confidence_bounds [of "[]" "''budget''"]
  by simp

section \<open>The request handler: the claims\<close>

lemma show_nat_nonempty: "show_nat n \<noteq> []"
  by (subst show_nat.simps) simp

lemma store_result_search_queries:
  "search_queries (store_result e qr q cd a t w) = search_queries w"
  by (simp add: store_result_def console_write_def split: option.splits)

lemma ask_gemini_search_queries:
  "search_queries (snd (ask_gemini e qr q cd w)) = search_queries w"
  by (simp add: ask_gemini_def Let_def console_write_def store_result_search_queries
           split: fetch_result.splits gemini_body.splits)

lemma catch_search_queries: "search_queries (snd (catch r)) = search_queries (snd r)"
  by (cases r) (simp add: catch_def console_write_def split: sum.splits)


text \<open>The path on which the query row is written and the model answers.\<close>

lemma serve_success:
  assumes "query_insert_result e = Inr newId"
      and "gemini_api_key e = Some key" and "key \<noteq> []"
      and "gemini_reply e = Http_response status errorText (Candidates text)"
      and "response_ok status"
  shows "serve e (Json_body query userId) w =
     (Ok_json \<lparr>resp_response = answer_text text,
               resp_knowledgeMatches = prepare_context (knowledge_search_data e),
               resp_processingTime = clock_end e - clock_start e,
               resp_queryId = newId\<rparr>,
      store_result e
        \<lparr>sq_id = newId, sq_user_id = userId, sq_query_text = query,
          sq_query_fragments = extractFragments query,
          sq_search_context = iso_timestamp e\<rparr>
        query (prepare_context (knowledge_search_data e)) (answer_text text)
        (clock_end e - clock_start e)
        (w\<lparr>console := console w @ [Smart_search_request query userId],
            search_queries := search_queries w @
              [\<lparr>sq_id = newId, sq_user_id = userId, sq_query_text = query,
                sq_query_fragments = extractFragments query,
                sq_search_context = iso_timestamp e\<rparr>],
            gemini_requests := gemini_requests w @
              [build_prompt query (prepare_context (knowledge_search_data e))]\<rparr>))"
  using assms
  by (simp add: serve_def search_body_def ask_gemini_def catch_def Let_def console_write_def)

text \<open>A failed retrieval and a retrieval that finds nothing are the same to the handler.\<close>

lemma store_result_knowledge_update:
  "store_result (e\<lparr>knowledge_search_data := x\<rparr>) qr q cd a t w = store_result e qr q cd a t w"
  by (simp add: store_result_def)

lemma ask_gemini_knowledge_update:
  "ask_gemini (e\<lparr>knowledge_search_data := x\<rparr>) qr q cd w = ask_gemini e qr q cd w"
  by (simp add: ask_gemini_def store_result_knowledge_update Let_def
           split: fetch_result.splits gemini_body.splits)

lemma search_body_knowledge_None:
  "knowledge_search_data e = None \<Longrightarrow>
   search_body (e\<lparr>knowledge_search_data := Some []\<rparr>) q u w = search_body e q u w"
  by (simp add: search_body_def ask_gemini_knowledge_update prepare_context_def Let_def
           split: sum.splits)

lemma serve_knowledge_None:
  "knowledge_search_data e = None \<Longrightarrow>
   serve e req w = serve (e\<lparr>knowledge_search_data := Some []\<rparr>) req w"
  by (simp add: serve_def search_body_knowledge_None split: request.splits)


lemma project_deck_row: "project deck_row = deck"
  by (simp add: project_def deck_row_def)

lemma prepare_context_env0: "prepare_context (knowledge_search_data env0) = [deck]"
  by (simp add: prepare_context_def env0_def project_deck_row)


lemma numeric_3_2_empty_score: "numeric_3_2 (3 / 10) = 3 / 10"
  by (simp add: numeric_3_2_def)

text \<open>
  C1, as the specification states it: a request whose query string is empty fails with
  InvalidInput and no SearchQuery row is written. The handler has no check of the query:
  on the empty query it stores a row with the fragments \<^verbatim>\<open>[""]\<close> and, the collaborators
  answering, responds with success.
\<close>

theorem empty_query_counterexample:
  "\<not> is_error (fst (serve env0 (Json_body [] ''user-1'') world0)) \<and>
   search_queries (snd (serve env0 (Json_body [] ''user-1'') world0)) =
     [\<lparr>sq_id = ''q-1'', sq_user_id = ''user-1'', sq_query_text = [],
       sq_query_fragments = [[]], sq_search_context = ''2025-01-01T00:00:00.000Z''\<rparr>]"
  by (simp add: serve_def search_body_def ask_gemini_def store_result_def catch_def console_write_def
        env0_def world0_def response_ok_def is_error_def Let_def extractFragments_Nil)

text \<open>
  C1, amended: the empty query is refused by the client, not by the handler. For every
  query that is empty after trimming, \<^verbatim>\<open>handleSearch\<close> shows "Search Query Required" and
  sends no request, so no SearchQuery row is written and nothing else changes. The handler
  itself does not validate the query: given the empty query it writes a SearchQuery row
  with the fragments \<^verbatim>\<open>[""]\<close> whenever the store accepts the insert.
\<close>

theorem empty_query_handling:
  "(trim query = [] \<longrightarrow> handleSearch e query user w = (Search_Query_Required, w)) \<and>
   (query_insert_result e = Inr newId \<longrightarrow>
      search_queries (snd (serve e (Json_body [] userId) w)) =
        search_queries w @
          [\<lparr>sq_id = newId, sq_user_id = userId, sq_query_text = [],
            sq_query_fragments = [[]], sq_search_context = iso_timestamp e\<rparr>])"
  by (simp add: handleSearch_def serve_def catch_search_queries search_body_def Let_def
        ask_gemini_search_queries console_write_def extractFragments_Nil)

theorem empty_query_handling_witness:
  "trim ''  '' = [] \<and>
   handleSearch env0 ''  '' (Some ''user-1'') world0 = (Search_Query_Required, world0) \<and>
   search_queries (snd (serve env0 (Json_body [] ''user-1'') world0)) =
     [\<lparr>sq_id = ''q-1'', sq_user_id = ''user-1'', sq_query_text = [],
       sq_query_fragments = [[]], sq_search_context = ''2025-01-01T00:00:00.000Z''\<rparr>]"
proof -
  have t: "trim ''  '' = []"
    by (simp add: trim_def is_ws_def)
  have i: "query_insert_result env0 = Inr ''q-1''"
    by (simp add: env0_def)
  show ?thesis
    using t i empty_query_handling [of "''  ''" env0 "Some ''user-1''" world0 "''q-1''" "''user-1''"]
    by (simp add: env0_def world0_def)
qed

text \<open>
  C7: when the language-model service answers with a status outside 200-299, or the model
  credentials are missing (no key, or an empty one), the request fails with an error
  response of status 500 whose message names the model failure; the SearchQuery row
  written before persists, and no SearchResult row is created. The client shows the same
  notice for every failed request ("Search Error").
\<close>

theorem model_unavailable:
  assumes "gemini_api_key e = None \<or> gemini_api_key e = Some [] \<or>
           (\<exists>errorText body. gemini_reply e = Http_response status errorText body \<and> \<not> response_ok status)"
      and "query_insert_result e = Inr newId"
  shows "fst (serve e (Json_body query userId) w) =
           Error_json 500
             (if gemini_api_key e = None \<or> gemini_api_key e = Some []
              then ''Gemini API key not configured''
              else ''Gemini API error: '' @ show_nat status) \<and>
         search_queries (snd (serve e (Json_body query userId) w)) =
           search_queries w @
             [\<lparr>sq_id = newId, sq_user_id = userId, sq_query_text = query,
               sq_query_fragments = extractFragments query,
               sq_search_context = iso_timestamp e\<rparr>] \<and>
         search_results (snd (serve e (Json_body query userId) w)) = search_results w \<and>
         (trim query \<noteq> [] \<longrightarrow>
            fst (handleSearch e query (Some userId) w) = Search_Error)"
proof (cases "gemini_api_key e = None \<or> gemini_api_key e = Some []")
  case True
  then have "serve e (Json_body query userId) w =
      (Error_json 500 ''Gemini API key not configured'',
       console_write (Error_in_smart_search ''Gemini API key not configured'')
         ((console_write (Smart_search_request query userId) w)
            \<lparr>search_queries := search_queries w @
               [\<lparr>sq_id = newId, sq_user_id = userId, sq_query_text = query,
                 sq_query_fragments = extractFragments query,
                 sq_search_context = iso_timestamp e\<rparr>]\<rparr>))"
    using assms(2)
    by (simp add: serve_def search_body_def ask_gemini_def catch_def Let_def console_write_def)
  with True show ?thesis
    by (simp add: handleSearch_def console_write_def)
next
  case False
  with assms(1) obtain errorText body where
    r: "gemini_reply e = Http_response status errorText body" and n: "\<not> response_ok status"
    by blast
  have "serve e (Json_body query userId) w =
      (Error_json 500 (''Gemini API error: '' @ show_nat status),
       console_write (Error_in_smart_search (''Gemini API error: '' @ show_nat status))
        (console_write (Gemini_API_error errorText)
         ((console_write (Smart_search_request query userId) w)
            \<lparr>search_queries := search_queries w @
               [\<lparr>sq_id = newId, sq_user_id = userId, sq_query_text = query,
                 sq_query_fragments = extractFragments query,
                 sq_search_context = iso_timestamp e\<rparr>],
              gemini_requests := gemini_requests w @
               [build_prompt query (prepare_context (knowledge_search_data e))]\<rparr>)))"
    using assms(2) False r n
    by (simp add: serve_def search_body_def ask_gemini_def catch_def Let_def console_write_def)
  with False show ?thesis
    by (simp add: handleSearch_def console_write_def)
qed

theorem model_unavailable_witness:
  "fst (serve (env0\<lparr>gemini_reply := Http_response 500 ''overloaded'' (Invalid_json [])\<rparr>)
          (Json_body ''blue folder, last week'' ''user-1'') world0) =
     Error_json 500 ''Gemini API error: 500'' \<and>
   search_queries (snd (serve (env0\<lparr>gemini_reply := Http_response 500 ''overloaded'' (Invalid_json [])\<rparr>)
          (Json_body ''blue folder, last week'' ''user-1'') world0)) =
     [\<lparr>sq_id = ''q-1'', sq_user_id = ''user-1'', sq_query_text = ''blue folder, last week'',
       sq_query_fragments = [''blue folder'', ''last week''],
       sq_search_context = ''2025-01-01T00:00:00.000Z''\<rparr>] \<and>
   search_results (snd (serve (env0\<lparr>gemini_reply := Http_response 500 ''overloaded'' (Invalid_json [])\<rparr>)
          (Json_body ''blue folder, last week'' ''user-1'') world0)) = [] \<and>
   fst (handleSearch (env0\<lparr>gemini_reply := Http_response 500 ''overloaded'' (Invalid_json [])\<rparr>)
          ''blue folder, last week'' (Some ''user-1'') world0) = Search_Error"
proof -
  let ?e = "env0\<lparr>gemini_reply := Http_response 500 ''overloaded'' (Invalid_json [])\<rparr>"
  have h1: "gemini_api_key ?e = None \<or> gemini_api_key ?e = Some [] \<or>
           (\<exists>errorText body. gemini_reply ?e = Http_response 500 errorText body \<and> \<not> response_ok 500)"
    by (simp add: env0_def response_ok_def)
  have h2: "query_insert_result ?e = Inr ''q-1''"
    by (simp add: env0_def)
  have f: "extractFragments ''blue folder, last week'' = [''blue folder'', ''last week'']"
    by code_simp
  have s: "show_nat 500 = ''500''"
    by code_simp
  have t: "trim ''blue folder, last week'' \<noteq> []"
    by code_simp
  have k: "gemini_api_key ?e = Some ''key''" "iso_timestamp ?e = ''2025-01-01T00:00:00.000Z''"
    by (simp_all add: env0_def)
  show ?thesis
    using t model_unavailable [OF h1 h2, of "''blue folder, last week''" "''user-1''" world0]
    by (simp add: f s k world0_def)
qed

text \<open>
  C8: when knowledge retrieval fails (its data is null) on a request whose query row is
  written and whose model call answers, the request still succeeds: the response carries
  no knowledge matches, the model was asked with the prompt built from the empty context
  (whose rendering is the empty string), the SearchResult row, when its insert is accepted,
  holds the confidence 0.3, and the outcome is the one of a retrieval that found nothing.
\<close>

theorem retrieval_failure_degrades:
  assumes "query_insert_result e = Inr newId"
      and "knowledge_search_data e = None"
      and "gemini_api_key e = Some key" and "key \<noteq> []"
      and "gemini_reply e = Http_response status errorText (Candidates text)"
      and "response_ok status"
  shows "fst (serve e (Json_body query userId) w) =
           Ok_json \<lparr>resp_response = answer_text text, resp_knowledgeMatches = [],
                     resp_processingTime = clock_end e - clock_start e,
                     resp_queryId = newId\<rparr> \<and>
         gemini_requests (snd (serve e (Json_body query userId) w)) =
           gemini_requests w @ [build_prompt query []] \<and>
         render_context [] = [] \<and>
         (result_insert_error e = None \<longrightarrow>
            search_results (snd (serve e (Json_body query userId) w)) =
              search_results w @
                [\<lparr>sr_query_id = newId, sr_ai_response = answer_text text,
                  sr_knowledge_matches = [], sr_fragments = extractFragments query,
                  sr_confidence_score = 3 / 10,
                  sr_processing_time_ms = clock_end e - clock_start e\<rparr>]) \<and>
         serve e (Json_body query userId) w =
           serve (e\<lparr>knowledge_search_data := Some []\<rparr>) (Json_body query userId) w"
proof -
  have c: "prepare_context (knowledge_search_data e) = []"
    using assms(2) by (simp add: prepare_context_def)
  have s: "serve e (Json_body query userId) w =
     (Ok_json \<lparr>resp_response = answer_text text,
               resp_knowledgeMatches = [],
               resp_processingTime = clock_end e - clock_start e,
               resp_queryId = newId\<rparr>,
      store_result e
        \<lparr>sq_id = newId, sq_user_id = userId, sq_query_text = query,
          sq_query_fragments = extractFragments query,
          sq_search_context = iso_timestamp e\<rparr>
        query [] (answer_text text)
        (clock_end e - clock_start e)
        (w\<lparr>console := console w @ [Smart_search_request query userId],
            search_queries := search_queries w @
              [\<lparr>sq_id = newId, sq_user_id = userId, sq_query_text = query,
                sq_query_fragments = extractFragments query,
                sq_search_context = iso_timestamp e\<rparr>],
            gemini_requests := gemini_requests w @ [build_prompt query []]\<rparr>))"
    using serve_success [OF assms(1) assms(3) assms(4) assms(5) assms(6), of query userId w]
    by (simp only: c)
  have f: "fst (serve e (Json_body query userId) w) =
           Ok_json \<lparr>resp_response = answer_text text, resp_knowledgeMatches = [],
                     resp_processingTime = clock_end e - clock_start e,
                     resp_queryId = newId\<rparr>"
    by (simp add: s)
  have g: "gemini_requests (snd (serve e (Json_body query userId) w)) =
           gemini_requests w @ [build_prompt query []]"
    by (simp add: s store_result_def console_write_def split: option.splits)
  have r: "result_insert_error e = None \<longrightarrow>
            search_results (snd (serve e (Json_body query userId) w)) =
              search_results w @
                [\<lparr>sr_query_id = newId, sr_ai_response = answer_text text,
                  sr_knowledge_matches = [], sr_fragments = extractFragments query,
                  sr_confidence_score = 3 / 10,
                  sr_processing_time_ms = clock_end e - clock_start e\<rparr>]"
    by (simp add: s store_result_def calculateConfidenceScore_Nil numeric_3_2_empty_score)
  have n: "render_context [] = []"
    by (simp add: render_context_def)
  have k: "serve e (Json_body query userId) w =
           serve (e\<lparr>knowledge_search_data := Some []\<rparr>) (Json_body query userId) w"
    using assms(2) by (rule serve_knowledge_None)
  from f g n r k show ?thesis
    by blast
qed

theorem retrieval_failure_degrades_witness:
  "fst (serve (env0\<lparr>knowledge_search_data := None\<rparr>) (Json_body ''blue folder'' ''user-1'') world0) =
     Ok_json \<lparr>resp_response = ''What are you looking for?'', resp_knowledgeMatches = [],
               resp_processingTime = 250, resp_queryId = ''q-1''\<rparr> \<and>
   gemini_requests
     (snd (serve (env0\<lparr>knowledge_search_data := None\<rparr>) (Json_body ''blue folder'' ''user-1'') world0)) =
     [build_prompt ''blue folder'' []] \<and>
   search_results
     (snd (serve (env0\<lparr>knowledge_search_data := None\<rparr>) (Json_body ''blue folder'' ''user-1'') world0)) =
     [\<lparr>sr_query_id = ''q-1'', sr_ai_response = ''What are you looking for?'',
       sr_knowledge_matches = [], sr_fragments = [''blue folder''],
       sr_confidence_score = 3 / 10, sr_processing_time_ms = 250\<rparr>]"
proof -
  let ?e = "env0\<lparr>knowledge_search_data := None\<rparr>"
  have h1: "query_insert_result ?e = Inr ''q-1''"
    by (simp add: env0_def)
  have h2: "knowledge_search_data ?e = None"
    by simp
  have h3: "gemini_api_key ?e = Some ''key''"
    by (simp add: env0_def)
  have h4: "''key'' \<noteq> []"
    by simp
  have h5: "gemini_reply ?e = Http_response 200 [] (Candidates (Some ''What are you looking for?''))"
    by (simp add: env0_def)
  have h6: "response_ok 200"
    by (simp add: response_ok_def)
  have f: "extractFragments ''blue folder'' = [''blue folder'']"
    by code_simp
  have v: "result_insert_error ?e = None" "clock_end ?e - clock_start ?e = 250"
    by (simp_all add: env0_def)
  note t = retrieval_failure_degrades [OF h1 h2 h3 h4 h5 h6, of "''blue folder''" "''user-1''" world0]
  show ?thesis
    using t [THEN conjunct1] t [THEN conjunct2, THEN conjunct1]
      t [THEN conjunct2, THEN conjunct2, THEN conjunct2, THEN conjunct1]
    by (simp only: f v answer_text_def world0_def) simp
qed

text \<open>
  C9: when the write of the SearchResult row fails after the model has answered, the
  failure is only logged: the response is the success response with the computed answer,
  the console gains the entry of the failed write, and no SearchResult row is added.
\<close>

theorem result_write_failure_not_surfaced:
  assumes "query_insert_result e = Inr newId"
      and "gemini_api_key e = Some key" and "key \<noteq> []"
      and "gemini_reply e = Http_response status errorText (Candidates text)"
      and "response_ok status"
      and "result_insert_error e = Some resultError"
  shows "fst (serve e (Json_body query userId) w) =
           Ok_json \<lparr>resp_response = answer_text text,
                     resp_knowledgeMatches = prepare_context (knowledge_search_data e),
                     resp_processingTime = clock_end e - clock_start e,
                     resp_queryId = newId\<rparr> \<and>
         console (snd (serve e (Json_body query userId) w)) =
           console w @ [Smart_search_request query userId, Error_storing_result resultError] \<and>
         search_results (snd (serve e (Json_body query userId) w)) = search_results w"
  using assms(6)
  by (simp add: serve_success [OF assms(1) assms(2) assms(3) assms(4) assms(5)]
        store_result_def console_write_def)

theorem result_write_failure_not_surfaced_witness:
  "fst (serve (env0\<lparr>result_insert_error := Some ''permission denied''\<rparr>)
          (Json_body ''marketing presentation'' ''user-1'') world0) =
     Ok_json \<lparr>resp_response = ''What are you looking for?'', resp_knowledgeMatches = [deck],
               resp_processingTime = 250, resp_queryId = ''q-1''\<rparr> \<and>
   console (snd (serve (env0\<lparr>result_insert_error := Some ''permission denied''\<rparr>)
          (Json_body ''marketing presentation'' ''user-1'') world0)) =
     [Smart_search_request ''marketing presentation'' ''user-1'',
      Error_storing_result ''permission denied''] \<and>
   search_results (snd (serve (env0\<lparr>result_insert_error := Some ''permission denied''\<rparr>)
          (Json_body ''marketing presentation'' ''user-1'') world0)) = []"
proof -
  let ?e = "env0\<lparr>result_insert_error := Some ''permission denied''\<rparr>"
  have h1: "query_insert_result ?e = Inr ''q-1''"
    by (simp add: env0_def)
  have h2: "gemini_api_key ?e = Some ''key''"
    by (simp add: env0_def)
  have h3: "''key'' \<noteq> []"
    by simp
  have h4: "gemini_reply ?e = Http_response 200 [] (Candidates (Some ''What are you looking for?''))"
    by (simp add: env0_def)
  have h5: "response_ok 200"
    by (simp add: response_ok_def)
  have h6: "result_insert_error ?e = Some ''permission denied''"
    by simp
  have v: "clock_end env0 - clock_start env0 = 250"
    by (simp add: env0_def)
  show ?thesis
    using result_write_failure_not_surfaced [OF h1 h2 h3 h4 h5 h6,
        of "''marketing presentation''" "''user-1''" world0]
    by (simp add: v prepare_context_env0 answer_text_def world0_def)
qed




end
